theory Spec2Isabelle
  imports Complex_Main "HOL-Library.Sublist"
begin

section \<open>JavaScript values\<close>

text \<open>
  The component of \<^verbatim>\<open>src/components/Weather.jsx\<close> works on whatever JSON the weather
  provider returns, so the data is modelled as untyped JavaScript values. A number is a
  double: not-a-number, an infinity, or a finite value, which is a rational.
\<close>

datatype jsnum = NaN | NegInf | Fin rat | PosInf

datatype jsval =
    JUndefined
  | JNull
  | JBool bool
  | JNum jsnum
  | JStr string
  | JArr "jsval list"
  | JObj "(string \<times> jsval) list"

text \<open>
  An object is the list of its own properties, one entry for each key. A thrown value
  is an error object with its message.
\<close>

datatype exn =
    Error (message: string)
  | TypeError (message: string)
  | SyntaxError (message: string)
  | URIError (message: string)

text \<open>Sequencing of steps that may throw: the first throw ends the evaluation.\<close>

definition andThen :: "exn + 'a \<Rightarrow> ('a \<Rightarrow> exn + 'b) \<Rightarrow> exn + 'b" where
  "andThen r k = (case r of Inl e \<Rightarrow> Inl e | Inr v \<Rightarrow> k v)"

text \<open>\<^verbatim>\<open>!v\<close> is \<open>\<not> truthy v\<close>: the falsy values are undefined, null, false, 0, NaN and the
  empty string. Every array and every object is truthy, the empty ones too.\<close>

fun truthy :: "jsval \<Rightarrow> bool" where
  "truthy JUndefined = False"
| "truthy JNull = False"
| "truthy (JBool b) = b"
| "truthy (JNum n) = (n \<noteq> NaN \<and> n \<noteq> Fin 0)"
| "truthy (JStr s) = (s \<noteq> [])"
| "truthy (JArr xs) = True"
| "truthy (JObj kvs) = True"

definition nullish :: "jsval \<Rightarrow> bool" where
  "nullish v = (v = JUndefined \<or> v = JNull)"

definition digit :: "nat \<Rightarrow> char" where
  "digit d = ''0123456789'' ! d"

fun decimal :: "nat \<Rightarrow> string" where
  "decimal n = (if n < 10 then [digit n] else decimal (n div 10) @ [digit (n mod 10)])"

declare decimal.simps [simp del]

text \<open>A name between single quotes, as the engine prints it in its messages.\<close>

definition quoted :: "string \<Rightarrow> string" where
  "quoted p = [CHR 0x27] @ p @ [CHR 0x27]"

text \<open>
  \<^verbatim>\<open>v.p\<close> for the property names this component reads (\<^verbatim>\<open>main\<close>, \<^verbatim>\<open>temp\<close>, \<^verbatim>\<open>weather\<close>,
  \<^verbatim>\<open>id\<close>, \<^verbatim>\<open>cod\<close>, \<^verbatim>\<open>message\<close>, \<^verbatim>\<open>name\<close>), none of which a built-in prototype defines:
  reading from undefined or null throws a TypeError, an object yields its own property
  or undefined, every other value yields undefined.
\<close>

fun getProp :: "jsval \<Rightarrow> string \<Rightarrow> exn + jsval" where
  "getProp JUndefined p =
     Inl (TypeError (''Cannot read properties of undefined (reading '' @ quoted p @ '')''))"
| "getProp JNull p =
     Inl (TypeError (''Cannot read properties of null (reading '' @ quoted p @ '')''))"
| "getProp (JObj kvs) p = Inr (case map_of kvs p of None \<Rightarrow> JUndefined | Some v \<Rightarrow> v)"
| "getProp v p = Inr JUndefined"

text \<open>\<^verbatim>\<open>v[i]\<close>: an array element, a one-character string, an object's property named by
  the decimal index, undefined when there is none.\<close>

fun getIndex :: "jsval \<Rightarrow> nat \<Rightarrow> exn + jsval" where
  "getIndex JUndefined i =
     Inl (TypeError (''Cannot read properties of undefined (reading '' @ quoted (decimal i) @ '')''))"
| "getIndex JNull i =
     Inl (TypeError (''Cannot read properties of null (reading '' @ quoted (decimal i) @ '')''))"
| "getIndex (JArr xs) i = Inr (if i < length xs then xs ! i else JUndefined)"
| "getIndex (JStr s) i = Inr (if i < length s then JStr [s ! i] else JUndefined)"
| "getIndex (JObj kvs) i =
     Inr (case map_of kvs (decimal i) of None \<Rightarrow> JUndefined | Some v \<Rightarrow> v)"
| "getIndex v i = Inr JUndefined"

section \<open>The environment of the component\<close>

text \<open>
  \<open>API_KEY\<close> is the module constant of line 12 (the empty string when the variable is
  not configured) and \<open>geolocation\<close> tells whether \<^verbatim>\<open>navigator.geolocation\<close> exists. The
  remaining fields are the conversions of the JavaScript engine that the component
  relies on and that are not part of the repository: the number a string denotes, the
  text of a number, the string an array or object converts to (which can throw), and
  \<^verbatim>\<open>encodeURIComponent\<close> on strings, which escapes a text for an address and throws a
  URIError on a text it cannot escape (one with an unpaired surrogate). Every result
  below holds for all of them.
\<close>

record env =
  API_KEY :: string
  geolocation :: bool
  StringToNumber :: "string \<Rightarrow> jsnum"
  NumberToString :: "jsnum \<Rightarrow> string"
  ObjectToString :: "jsval \<Rightarrow> exn + string"
  encodeURIComponent :: "string \<Rightarrow> exn + string"

definition ToNumber :: "env \<Rightarrow> jsval \<Rightarrow> exn + jsnum" where
  "ToNumber h v =
     (case v of
        JUndefined \<Rightarrow> Inr NaN
      | JNull \<Rightarrow> Inr (Fin 0)
      | JBool b \<Rightarrow> Inr (Fin (if b then 1 else 0))
      | JNum n \<Rightarrow> Inr n
      | JStr s \<Rightarrow> Inr (StringToNumber h s)
      | JArr xs \<Rightarrow> andThen (ObjectToString h v) (\<lambda>s. Inr (StringToNumber h s))
      | JObj kvs \<Rightarrow> andThen (ObjectToString h v) (\<lambda>s. Inr (StringToNumber h s)))"

definition ToString :: "env \<Rightarrow> jsval \<Rightarrow> exn + string" where
  "ToString h v =
     (case v of
        JUndefined \<Rightarrow> Inr ''undefined''
      | JNull \<Rightarrow> Inr ''null''
      | JBool b \<Rightarrow> Inr (if b then ''true'' else ''false'')
      | JNum n \<Rightarrow> Inr (NumberToString h n)
      | JStr s \<Rightarrow> Inr s
      | JArr xs \<Rightarrow> ObjectToString h v
      | JObj kvs \<Rightarrow> ObjectToString h v)"

text \<open>The comparisons \<^verbatim>\<open>x < k\<close> and \<^verbatim>\<open>x >= k\<close> of a number with a finite literal;
  both are false at NaN.\<close>

fun num_lt :: "jsnum \<Rightarrow> rat \<Rightarrow> bool" where
  "num_lt NaN k = False"
| "num_lt NegInf k = True"
| "num_lt (Fin x) k = (x < k)"
| "num_lt PosInf k = False"

fun num_ge :: "jsnum \<Rightarrow> rat \<Rightarrow> bool" where
  "num_ge NaN k = False"
| "num_ge NegInf k = False"
| "num_ge (Fin x) k = (k \<le> x)"
| "num_ge PosInf k = True"

section \<open>Icon selection\<close>

text \<open>The seven image assets imported in lines 3 to 9.\<close>

datatype icon =
  clearIcon | cloudyIcon | rainyIcon | snowIcon | stormIcon | downpourIcon | atmosphericIcon

text \<open>The thresholds of lines 52 to 55: the metric ones when the unit is the string
  \<^verbatim>\<open>metric\<close>, the imperial ones for every other unit.\<close>

definition freezing :: "string \<Rightarrow> rat" where
  "freezing currentUnit = (if currentUnit = ''metric'' then 0 else 32)"

definition cold :: "string \<Rightarrow> rat" where
  "cold currentUnit = (if currentUnit = ''metric'' then 10 else 50)"

definition cool :: "string \<Rightarrow> rat" where
  "cool currentUnit = (if currentUnit = ''metric'' then 15 else 59)"

definition warm :: "string \<Rightarrow> rat" where
  "warm currentUnit = (if currentUnit = ''metric'' then 25 else 77)"

text \<open>
  Lines 25 to 83, on the values read from the weather data. The relational operators
  convert their left operand to a number; the conversion is a function of the value, so
  it is made once for the condition identifier (at its first comparison, line 28) and
  once for the temperature (at its first comparison, line 58). The identity tests
  \<^verbatim>\<open>===\<close> of lines 34 and 75 do not convert: they hold for the number itself only.
\<close>

definition chooseIcon :: "env \<Rightarrow> jsval \<Rightarrow> jsval \<Rightarrow> string \<Rightarrow> exn + icon" where
  "chooseIcon h conditionId temp currentUnit =
     andThen (ToNumber h conditionId) (\<lambda>c.
       if num_ge c 200 \<and> num_lt c 300 then Inr stormIcon
       else if (num_ge c 300 \<and> num_lt c 400) \<or> (num_ge c 500 \<and> num_lt c 600) then
         (if conditionId = JNum (Fin 502) \<or> conditionId = JNum (Fin 503)
             \<or> conditionId = JNum (Fin 504) \<or> conditionId = JNum (Fin 522)
          then Inr downpourIcon
          else Inr rainyIcon)
       else if num_ge c 600 \<and> num_lt c 700 then Inr snowIcon
       else if num_ge c 700 \<and> num_lt c 800 then Inr atmosphericIcon
       else
         andThen (ToNumber h temp) (\<lambda>t.
           if num_lt t (freezing currentUnit) then Inr snowIcon
           else if num_lt t (cold currentUnit) then Inr cloudyIcon
           else if num_lt t (cool currentUnit) then Inr cloudyIcon
           else if num_lt t (warm currentUnit) then
             (if conditionId = JNum (Fin 800) then Inr clearIcon else Inr cloudyIcon)
           else Inr clearIcon))"

text \<open>
  \<^verbatim>\<open>getWeatherIcon\<close>, lines 15 to 84: the guard of line 16, the two reads of lines 20 and
  21 (\<^verbatim>\<open>weatherData.main.temp\<close> throws when \<^verbatim>\<open>main\<close> is undefined or null), then the
  decision. The logging of line 23 reads nothing that can throw after the guard.
\<close>

definition getWeatherIcon :: "env \<Rightarrow> jsval \<Rightarrow> string \<Rightarrow> exn + icon" where
  "getWeatherIcon h weatherData currentUnit =
     (if \<not> truthy weatherData then Inr cloudyIcon
      else andThen (getProp weatherData ''weather'') (\<lambda>weather.
        if \<not> truthy weather then Inr cloudyIcon
        else andThen (getIndex weather 0) (\<lambda>first.
          if \<not> truthy first then Inr cloudyIcon
          else andThen (getProp weatherData ''main'') (\<lambda>main.
            andThen (getProp main ''temp'') (\<lambda>temp.
              andThen (getProp first ''id'') (\<lambda>conditionId.
                chooseIcon h conditionId temp currentUnit))))))"

text \<open>
  What a call of \<^verbatim>\<open>getWeatherIcon\<close> writes to the console: nothing when the guard of
  line 16 answers or line 20 throws, and otherwise the one line of line 23, the list of
  the values handed to \<^verbatim>\<open>console.log\<close>. The degree sign is the character 0xB0.
\<close>

definition getWeatherIcon_console :: "jsval \<Rightarrow> string \<Rightarrow> jsval list list" where
  "getWeatherIcon_console weatherData currentUnit =
     (if \<not> truthy weatherData then []
      else case getProp weatherData ''weather'' of Inl e \<Rightarrow> [] | Inr weather \<Rightarrow>
        if \<not> truthy weather then []
        else case getIndex weather 0 of Inl e \<Rightarrow> [] | Inr first \<Rightarrow>
          if \<not> truthy first then []
          else case getProp weatherData ''main'' of Inl e \<Rightarrow> [] | Inr main \<Rightarrow>
            case getProp main ''temp'' of Inl e \<Rightarrow> [] | Inr temp \<Rightarrow>
              case getProp first ''id'' of Inl e \<Rightarrow> [] | Inr conditionId \<Rightarrow>
                case getProp first ''main'' of Inl e \<Rightarrow> [] | Inr condition \<Rightarrow>
                  [[JStr ''Temperature:'', temp,
                    JStr (if currentUnit = ''metric'' then [CHR 0xB0, CHR ''C'']
                          else [CHR 0xB0, CHR ''F'']),
                    JStr ''Condition ID:'', conditionId, JStr ''Condition:'', condition]])"

text \<open>The two reads as expressions of their own: \<^verbatim>\<open>weatherData.weather[0].id\<close> and
  \<^verbatim>\<open>weatherData.main.temp\<close>.\<close>

definition conditionIdOf :: "jsval \<Rightarrow> exn + jsval" where
  "conditionIdOf weatherData =
     andThen (getProp weatherData ''weather'') (\<lambda>weather.
       andThen (getIndex weather 0) (\<lambda>first. getProp first ''id''))"

definition tempOf :: "jsval \<Rightarrow> exn + jsval" where
  "tempOf weatherData =
     andThen (getProp weatherData ''main'') (\<lambda>main. getProp main ''temp'')"

text \<open>An engine for the worked examples. None of them converts a string, an array or
  an object, or prints a number, so the three conversions are never consulted there.
  The cities of the examples are written in letters only, which escaping leaves as they
  are.\<close>

definition example_env :: env where
  "example_env =
     \<lparr>API_KEY = ''0123456789abcdef'', geolocation = True,
      StringToNumber = (\<lambda>s. NaN), NumberToString = (\<lambda>n. ''''),
      ObjectToString = (\<lambda>v. Inr ''''), encodeURIComponent = (\<lambda>s. Inr s)\<rparr>"

definition observation :: "rat \<Rightarrow> rat \<Rightarrow> jsval" where
  "observation code t =
     JObj [(''name'', JStr ''Colombo''),
           (''main'', JObj [(''temp'', JNum (Fin t)), (''humidity'', JNum (Fin 70))]),
           (''weather'', JArr [JObj [(''id'', JNum (Fin code)), (''main'', JStr ''Sky'')]])]"

section \<open>The weather fetcher\<close>

text \<open>
  The component keeps six state variables (lines 87 to 92). The network is observed
  through \<open>fetched\<close>: the requests handed to \<^verbatim>\<open>fetch\<close>, oldest first. A request stands
  for the address built in lines 103 to 105 or in line 184 and holds the values put into
  that template: the escaped text of the city or the coordinates, the key and the unit.
\<close>

datatype request =
    CityRequest (q: string) (appid: string) (units: string)
  | CoordsRequest (lat: jsnum) (lon: jsnum) (appid: string) (units: string)

record state =
  query :: jsval
  data :: jsval
  loading :: bool
  error :: string
  fetchTime :: "nat option"
  unit :: string
  fetched :: "request list"

definition initial :: state where
  "initial =
     \<lparr>query = JStr [], data = JNull, loading = False, error = [], fetchTime = None,
      unit = ''metric'', fetched = []\<rparr>"

text \<open>
  What a handler leaves behind when it returns or suspends: a fetch whose response is
  awaited, or a position request, whose callbacks close over the unit of the render
  that started it.
\<close>

datatype pending = Fetch request | Position string

text \<open>
  A response as the component reads it: the status (\<^verbatim>\<open>res.ok\<close> holds for 200 to 299),
  the status text, and what \<^verbatim>\<open>res.json()\<close> settles to, a parsed value or a rejection.
  The fetch itself either resolves to a response or rejects.
\<close>

record response =
  status :: nat
  statusText :: string
  json :: "exn + jsval"

definition ok :: "response \<Rightarrow> bool" where
  "ok res = (200 \<le> status res \<and> status res \<le> 299)"

datatype fetch_result = Rejected exn | Resolved response

text \<open>\<^verbatim>\<open>text.includes(part)\<close> on strings.\<close>

fun string_includes :: "string \<Rightarrow> string \<Rightarrow> bool" where
  "string_includes [] part = (part = [])"
| "string_includes (c # cs) part = (prefix part (c # cs) \<or> string_includes cs part)"

text \<open>
  \<^verbatim>\<open>errorData.message?.includes('500000')\<close>, line 126: undefined (falsy) when the message
  is undefined or null, a substring test on a string, a membership test on an array,
  and a TypeError for every other value, which has no callable \<^verbatim>\<open>includes\<close>.
\<close>

definition includes500000 :: "jsval \<Rightarrow> exn + bool" where
  "includes500000 m =
     (case m of
        JUndefined \<Rightarrow> Inr False
      | JNull \<Rightarrow> Inr False
      | JStr s \<Rightarrow> Inr (string_includes s ''500000'')
      | JArr xs \<Rightarrow> Inr (JStr ''500000'' \<in> set xs)
      | JBool b \<Rightarrow> Inl (TypeError ''errorData.message?.includes is not a function'')
      | JNum n \<Rightarrow> Inl (TypeError ''errorData.message?.includes is not a function'')
      | JObj kvs \<Rightarrow> Inl (TypeError ''errorData.message?.includes is not a function''))"

text \<open>\<^verbatim>\<open>res.json().catch(() => ({}))\<close>, lines 112 and 191.\<close>

definition errorDataOf :: "response \<Rightarrow> jsval" where
  "errorDataOf res = (case json res of Inl e \<Rightarrow> JObj [] | Inr v \<Rightarrow> v)"

text \<open>The check of lines 135 to 137 and 197 to 199: the parsed body, or the error thrown.\<close>

definition validated :: "jsval \<Rightarrow> exn + jsval" where
  "validated body =
     (if \<not> truthy body then Inl (Error ''Invalid response from weather API'')
      else andThen (getProp body ''main'') (\<lambda>main.
        if \<not> truthy main then Inl (Error ''Invalid response from weather API'')
        else andThen (getProp body ''weather'') (\<lambda>weather.
          if \<not> truthy weather then Inl (Error ''Invalid response from weather API'')
          else Inr body)))"

definition serviceError :: string where
  "serviceError =
     ''OpenWeatherMap service error. This usually means:\<newline>'' @
     ''1. Your API key needs to be activated (wait 15-30 min)\<newline>'' @
     ''2. Your account needs email verification\<newline>'' @
     ''3. Try generating a new API key at: https://home.openweathermap.org/api_keys''"

text \<open>
  Lines 111 to 137 of \<^verbatim>\<open>fetchWeatherWithUnit\<close>: what the \<^verbatim>\<open>try\<close> block makes of the
  response, the accepted body or the error it throws.
\<close>

definition cityResponse :: "env \<Rightarrow> response \<Rightarrow> exn + jsval" where
  "cityResponse h res =
     (if \<not> ok res then
        (let errorData = errorDataOf res in
         if status res = 401 then
           Inl (Error ''API key invalid or not activated yet. Wait 10-15 minutes after signup, then try again.'')
         else if status res = 404 then
           Inl (Error ''City not found. Please check the spelling and try again.'')
         else if status res = 429 then
           Inl (Error ''Too many requests. Please wait a moment and try again.'')
         else
           andThen (getProp errorData ''cod'') (\<lambda>cod.
           andThen (getProp errorData ''message'') (\<lambda>msg.
           andThen (if cod = JNum (Fin 500000) then Inr True else includes500000 msg) (\<lambda>hit.
             if hit then Inl (Error serviceError)
             else if truthy msg then andThen (ToString h msg) (\<lambda>text. Inl (Error text))
             else Inl (Error (''Error: '' @ decimal (status res) @ '' - '' @ statusText res))))))
      else andThen (json res) validated)"

text \<open>Lines 190 to 199 of the position callback of \<^verbatim>\<open>getCurrentLocationWeather\<close>.\<close>

definition locationResponse :: "env \<Rightarrow> response \<Rightarrow> exn + jsval" where
  "locationResponse h res =
     (if \<not> ok res then
        (let errorData = errorDataOf res in
           andThen (getProp errorData ''message'') (\<lambda>msg.
             if truthy msg then andThen (ToString h msg) (\<lambda>text. Inl (Error text))
             else Inl (Error (''Error: '' @ decimal (status res)))))
      else andThen (json res) validated)"

text \<open>The \<^verbatim>\<open>catch\<close> and \<^verbatim>\<open>finally\<close> blocks, lines 141 to 146 and 204 to 209.\<close>

definition caught :: "string \<Rightarrow> exn \<Rightarrow> state \<Rightarrow> state" where
  "caught fallback err s =
     s\<lparr>error := (if message err = [] then fallback else message err), loading := False\<rparr>"

text \<open>\<^verbatim>\<open>encodeURIComponent(city)\<close>, line 103: the city is converted to a string and the
  string is escaped; either step can throw.\<close>

definition cityText :: "env \<Rightarrow> jsval \<Rightarrow> exn + string" where
  "cityText h city = andThen (ToString h city) (encodeURIComponent h)"

text \<open>
  \<^verbatim>\<open>fetchWeatherWithUnit\<close> up to the \<^verbatim>\<open>await\<close> of line 110: the key check, the three
  resets, and the request. If building the address throws, the \<^verbatim>\<open>catch\<close> and
  \<^verbatim>\<open>finally\<close> blocks run at once and nothing is fetched.
\<close>

definition fetchWeatherWithUnit_start ::
    "env \<Rightarrow> jsval \<Rightarrow> string \<Rightarrow> state \<Rightarrow> state \<times> pending option" where
  "fetchWeatherWithUnit_start h city specificUnit s =
     (if API_KEY h = [] then
        (s\<lparr>error := ''No API key found. Add VITE_OPENWEATHER_API_KEY to .env''\<rparr>, None)
      else
        (let s1 = s\<lparr>loading := True, error := [], data := JNull\<rparr> in
         case cityText h city of
           Inl err \<Rightarrow> (caught ''Failed to fetch weather data'' err s1, None)
         | Inr escaped \<Rightarrow>
             (let url = CityRequest escaped (API_KEY h) specificUnit in
              (s1\<lparr>fetched := fetched s1 @ [url]\<rparr>, Some (Fetch url)))))"

text \<open>
  \<^verbatim>\<open>fetchWeatherWithUnit\<close> from the \<^verbatim>\<open>await\<close> on, lines 110 to 146, run when the fetch
  settles, on the state the component has by then; \<open>now\<close> is the time \<^verbatim>\<open>new Date()\<close>
  reads. A rejected fetch throws its error inside the \<^verbatim>\<open>try\<close> block.
\<close>

definition cityOutcome :: "env \<Rightarrow> fetch_result \<Rightarrow> exn + jsval" where
  "cityOutcome h result =
     (case result of Rejected err \<Rightarrow> Inl err | Resolved res \<Rightarrow> cityResponse h res)"

definition fetchWeatherWithUnit_finish ::
    "env \<Rightarrow> fetch_result \<Rightarrow> nat \<Rightarrow> state \<Rightarrow> state" where
  "fetchWeatherWithUnit_finish h result now s =
     (case cityOutcome h result of
        Inl err \<Rightarrow> caught ''Failed to fetch weather data'' err s
      | Inr body \<Rightarrow> s\<lparr>data := body, fetchTime := Some now, loading := False\<rparr>)"

text \<open>The whole call when nothing else runs while the fetch is awaited; \<open>network\<close>
  answers the request.\<close>

definition fetchWeatherWithUnit ::
    "env \<Rightarrow> (request \<Rightarrow> fetch_result) \<Rightarrow> nat \<Rightarrow> jsval \<Rightarrow> string \<Rightarrow> state \<Rightarrow> state" where
  "fetchWeatherWithUnit h network now city specificUnit s =
     (case fetchWeatherWithUnit_start h city specificUnit s of
        (s1, Some (Fetch url)) \<Rightarrow> fetchWeatherWithUnit_finish h (network url) now s1
      | (s1, _) \<Rightarrow> s1)"

text \<open>The handlers of lines 149 to 166, and the change handler of the input, line 245.\<close>

definition fetchWeather :: "env \<Rightarrow> jsval \<Rightarrow> state \<Rightarrow> state \<times> pending option" where
  "fetchWeather h city s = fetchWeatherWithUnit_start h city (unit s) s"

definition onSubmit :: "env \<Rightarrow> state \<Rightarrow> state \<times> pending option" where
  "onSubmit h s = (if \<not> truthy (query s) then (s, None) else fetchWeather h (query s) s)"

definition onChange :: "string \<Rightarrow> state \<Rightarrow> state" where
  "onChange text s = s\<lparr>query := JStr text\<rparr>"

definition toggleUnit :: "env \<Rightarrow> state \<Rightarrow> state \<times> pending option" where
  "toggleUnit h s =
     (let newUnit = (if unit s = ''metric'' then ''imperial'' else ''metric'');
          s1 = s\<lparr>unit := newUnit\<rparr>
      in if truthy (data s) \<and> truthy (query s)
         then fetchWeatherWithUnit_start h (query s) newUnit s1
         else (s1, None))"

text \<open>
  \<^verbatim>\<open>getCurrentLocationWeather\<close>, lines 171 to 216: the handler itself, the position
  callback up to its \<^verbatim>\<open>await\<close> (lines 181 to 188) and after it (lines 188 to 209), and
  the error callback (lines 211 to 214).
\<close>

definition getCurrentLocationWeather :: "env \<Rightarrow> state \<Rightarrow> state \<times> pending option" where
  "getCurrentLocationWeather h s =
     (if \<not> geolocation h then
        (s\<lparr>error := ''Geolocation is not supported by your browser''\<rparr>, None)
      else (s\<lparr>loading := True, error := []\<rparr>, Some (Position (unit s))))"

definition position_start ::
    "env \<Rightarrow> string \<Rightarrow> jsnum \<Rightarrow> jsnum \<Rightarrow> state \<Rightarrow> state \<times> pending option" where
  "position_start h capturedUnit latitude longitude s =
     (let url = CoordsRequest latitude longitude (API_KEY h) capturedUnit in
      (s\<lparr>fetched := fetched s @ [url]\<rparr>, Some (Fetch url)))"

definition locationOutcome :: "env \<Rightarrow> fetch_result \<Rightarrow> exn + jsval" where
  "locationOutcome h result =
     (case result of Rejected err \<Rightarrow> Inl err | Resolved res \<Rightarrow> locationResponse h res)"

definition position_finish :: "env \<Rightarrow> fetch_result \<Rightarrow> nat \<Rightarrow> state \<Rightarrow> state" where
  "position_finish h result now s =
     (case locationOutcome h result of
        Inl err \<Rightarrow> caught ''Failed to fetch weather for your location'' err s
      | Inr body \<Rightarrow>
          (let s1 = s\<lparr>data := body, fetchTime := Some now\<rparr> in
           case getProp body ''name'' of
             Inl err \<Rightarrow> caught ''Failed to fetch weather for your location'' err s1
           | Inr name \<Rightarrow> s1\<lparr>query := name, loading := False\<rparr>))"

definition position_error :: "state \<Rightarrow> state" where
  "position_error s =
     s\<lparr>loading := False,
       error := ''Unable to get your location. Please enable location access.''\<rparr>"

text \<open>The values that convert to a number without consulting a method of their own:
  everything but arrays and objects.\<close>

definition primitive :: "jsval \<Rightarrow> bool" where
  "primitive v = (case v of JArr xs \<Rightarrow> False | JObj kvs \<Rightarrow> False | _ \<Rightarrow> True)"

text \<open>A response body whose list of weather conditions is empty.\<close>

definition empty_list_body :: jsval where
  "empty_list_body =
     JObj [(''name'', JStr ''Colombo''), (''main'', JObj [(''temp'', JNum (Fin 29))]),
           (''weather'', JArr [])]"

text \<open>Responses and states for the worked examples: a success with a given body, a
  failure with a given status and body, and the state after the city Colombo was
  submitted and answered.\<close>

definition ok_response :: "jsval \<Rightarrow> response" where
  "ok_response body = \<lparr>status = 200, statusText = ''OK'', json = Inr body\<rparr>"

definition error_response :: "nat \<Rightarrow> string \<Rightarrow> jsval \<Rightarrow> response" where
  "error_response code reason body = \<lparr>status = code, statusText = reason, json = Inr body\<rparr>"

definition displayed :: state where
  "displayed =
     fetchWeatherWithUnit_finish example_env (Resolved (ok_response (observation 800 29)))
       1700000000 (fst (onSubmit example_env (onChange ''Colombo'' initial)))"

text \<open>The example engine without a configured key.\<close>

definition keyless_env :: env where
  "keyless_env = example_env\<lparr>API_KEY := []\<rparr>"

text \<open>The provider's body for a rejected key and for an unknown city, and the state in
  which the fetch of the position callback is awaited.\<close>

definition invalid_key_body :: jsval where
  "invalid_key_body =
     JObj [(''cod'', JNum (Fin 401)),
           (''message'', JStr ''Invalid API key. Please see https://openweathermap.org/faq#error401 for more info.'')]"

definition locating :: state where
  "locating =
     fst (position_start example_env ''metric'' (Fin 7) (Fin 80)
            (fst (getCurrentLocationWeather example_env initial)))"

definition not_found_body :: jsval where
  "not_found_body = JObj [(''cod'', JStr ''404''), (''message'', JStr ''city not found'')]"

text \<open>A response body that the fetch accepts and whose first weather condition has no
  identifier, and the example engine on a text it cannot escape.\<close>

definition no_id_body :: jsval where
  "no_id_body =
     JObj [(''name'', JStr ''Colombo''), (''main'', JObj [(''temp'', JNum (Fin 30))]),
           (''weather'', JArr [JObj [(''description'', JStr ''clear sky'')]])]"

definition unescapable_env :: env where
  "unescapable_env = example_env\<lparr>encodeURIComponent := (\<lambda>s. Inl (URIError ''URI malformed''))\<rparr>"

section \<open>Properties of the icon selection\<close>

lemma conditionIdOf_guard:
  assumes "conditionIdOf weatherData = Inr (JNum n)"
  obtains weather first where
    "truthy weatherData" "getProp weatherData ''weather'' = Inr weather" "truthy weather"
    "getIndex weather 0 = Inr first" "truthy first" "getProp first ''id'' = Inr (JNum n)"
proof -
  from assms obtain weather first where
    w: "getProp weatherData ''weather'' = Inr weather" and
    f: "getIndex weather 0 = Inr first" and
    i: "getProp first ''id'' = Inr (JNum n)"
    by (auto simp: conditionIdOf_def andThen_def split: sum.splits)
  from i have tf: "truthy first"
    by (cases first) auto
  from f tf have tw: "truthy weather"
    by (cases weather) (auto split: if_splits)
  from w tw have td: "truthy weatherData"
    by (cases weatherData) auto
  from that [OF td w tw f tf i] show thesis .
qed

lemma getWeatherIcon_chooseIcon:
  assumes "conditionIdOf weatherData = Inr (JNum n)" "tempOf weatherData = Inr temp"
  shows "getWeatherIcon h weatherData u = chooseIcon h (JNum n) temp u"
proof -
  from assms(1) obtain weather first where g:
    "truthy weatherData" "getProp weatherData ''weather'' = Inr weather" "truthy weather"
    "getIndex weather 0 = Inr first" "truthy first" "getProp first ''id'' = Inr (JNum n)"
    by (rule conditionIdOf_guard)
  from assms(2) obtain main where m:
    "getProp weatherData ''main'' = Inr main" "getProp main ''temp'' = Inr temp"
    by (auto simp: tempOf_def andThen_def split: sum.splits)
  show ?thesis
    by (simp add: getWeatherIcon_def andThen_def g m)
qed

lemma conditionIdOf_observation: "conditionIdOf (observation code t) = Inr (JNum (Fin code))"
  by (simp add: conditionIdOf_def observation_def andThen_def)

lemma tempOf_observation: "tempOf (observation code t) = Inr (JNum (Fin t))"
  by (simp add: tempOf_def observation_def andThen_def)

text \<open>
  Claim C1. When the first weather condition carries a number as its identifier, the
  severe-weather families decide the icon from that number alone, whatever value the
  temperature field holds and whatever the unit is: the storm icon on [200,300); on
  [300,400) and [500,600) the downpour icon exactly for 502, 503, 504 and 522 and the
  rain icon otherwise; the snow icon on [600,700); the atmospheric icon on [700,800).
\<close>

theorem severe_weather_icon:
  assumes "conditionIdOf weatherData = Inr (JNum (Fin code))"
    and "tempOf weatherData = Inr temp"
  shows "(200 \<le> code \<and> code < 300 \<longrightarrow> getWeatherIcon h weatherData u = Inr stormIcon) \<and>
         ((300 \<le> code \<and> code < 400) \<or> (500 \<le> code \<and> code < 600) \<longrightarrow>
            getWeatherIcon h weatherData u =
              Inr (if code \<in> {502, 503, 504, 522} then downpourIcon else rainyIcon)) \<and>
         (600 \<le> code \<and> code < 700 \<longrightarrow> getWeatherIcon h weatherData u = Inr snowIcon) \<and>
         (700 \<le> code \<and> code < 800 \<longrightarrow> getWeatherIcon h weatherData u = Inr atmosphericIcon)"
  unfolding getWeatherIcon_chooseIcon [OF assms]
  by (simp add: chooseIcon_def ToNumber_def andThen_def)

theorem severe_weather_icon_witness:
  "getWeatherIcon example_env (observation 211 31) ''metric'' = Inr stormIcon \<and>
   getWeatherIcon example_env (observation 502 31) ''imperial'' = Inr downpourIcon \<and>
   getWeatherIcon example_env (observation 301 (-4)) ''metric'' = Inr rainyIcon \<and>
   getWeatherIcon example_env (observation 601 40) ''metric'' = Inr snowIcon \<and>
   getWeatherIcon example_env (observation 741 40) ''imperial'' = Inr atmosphericIcon"
  using severe_weather_icon [OF conditionIdOf_observation [of 211 31] tempOf_observation [of 211 31], of example_env "''metric''"]
    severe_weather_icon [OF conditionIdOf_observation [of 502 31] tempOf_observation [of 502 31], of example_env "''imperial''"]
    severe_weather_icon [OF conditionIdOf_observation [of 301 "-4"] tempOf_observation [of 301 "-4"], of example_env "''metric''"]
    severe_weather_icon [OF conditionIdOf_observation [of 601 40] tempOf_observation [of 601 40], of example_env "''metric''"]
    severe_weather_icon [OF conditionIdOf_observation [of 741 40] tempOf_observation [of 741 40], of example_env "''imperial''"]
  by simp

text \<open>
  Claim C2. For a condition identifier of 800 or more and a finite temperature, the icon
  follows the temperature bands of the unit (0, 10, 15, 25 metric; 32, 50, 59, 77
  imperial): snow below freezing, cloudy from freezing up to cool, between cool and warm
  the clear icon exactly for identifier 800 and cloudy otherwise, clear from warm on.
\<close>

theorem temperature_band_icon:
  assumes "conditionIdOf weatherData = Inr (JNum (Fin code))"
    and "tempOf weatherData = Inr (JNum (Fin t))"
    and "800 \<le> code"
  shows "(freezing ''metric'' = 0 \<and> cold ''metric'' = 10 \<and> cool ''metric'' = 15 \<and> warm ''metric'' = 25) \<and>
         (freezing ''imperial'' = 32 \<and> cold ''imperial'' = 50 \<and> cool ''imperial'' = 59 \<and> warm ''imperial'' = 77) \<and>
         (t < freezing u \<longrightarrow> getWeatherIcon h weatherData u = Inr snowIcon) \<and>
         (freezing u \<le> t \<and> t < cool u \<longrightarrow> getWeatherIcon h weatherData u = Inr cloudyIcon) \<and>
         (cool u \<le> t \<and> t < warm u \<longrightarrow>
            getWeatherIcon h weatherData u = Inr (if code = 800 then clearIcon else cloudyIcon)) \<and>
         (warm u \<le> t \<longrightarrow> getWeatherIcon h weatherData u = Inr clearIcon)"
  unfolding getWeatherIcon_chooseIcon [OF assms(1,2)]
  using assms(3)
  by (simp add: chooseIcon_def ToNumber_def andThen_def freezing_def cold_def cool_def warm_def)

theorem temperature_band_icon_witness:
  "getWeatherIcon example_env (observation 800 20) ''metric'' = Inr clearIcon \<and>
   getWeatherIcon example_env (observation 801 20) ''metric'' = Inr cloudyIcon \<and>
   getWeatherIcon example_env (observation 800 (-5)) ''metric'' = Inr snowIcon \<and>
   getWeatherIcon example_env (observation 804 40) ''imperial'' = Inr cloudyIcon \<and>
   getWeatherIcon example_env (observation 803 80) ''imperial'' = Inr clearIcon"
  using temperature_band_icon [OF conditionIdOf_observation [of 800 20] tempOf_observation [of 800 20], of "''metric''" example_env]
    temperature_band_icon [OF conditionIdOf_observation [of 801 20] tempOf_observation [of 801 20], of "''metric''" example_env]
    temperature_band_icon [OF conditionIdOf_observation [of 800 "-5"] tempOf_observation [of 800 "-5"], of "''metric''" example_env]
    temperature_band_icon [OF conditionIdOf_observation [of 804 40] tempOf_observation [of 804 40], of "''imperial''" example_env]
    temperature_band_icon [OF conditionIdOf_observation [of 803 80] tempOf_observation [of 803 80], of "''imperial''" example_env]
  by (simp add: freezing_def cold_def cool_def warm_def)

text \<open>
  Claim C9. At the warm boundary the two unit systems agree: identifier 800 at 77 degrees
  under the imperial unit gets the icon that identifier 800 at 25 degrees gets under the
  metric unit, and that icon is the clear one.
\<close>

theorem warm_boundary_equivalence:
  assumes "conditionIdOf a = Inr (JNum (Fin 800))" and "tempOf a = Inr (JNum (Fin 77))"
    and "conditionIdOf b = Inr (JNum (Fin 800))" and "tempOf b = Inr (JNum (Fin 25))"
  shows "getWeatherIcon h a ''imperial'' = getWeatherIcon h b ''metric'' \<and>
         getWeatherIcon h b ''metric'' = Inr clearIcon"
  unfolding getWeatherIcon_chooseIcon [OF assms(1,2)] getWeatherIcon_chooseIcon [OF assms(3,4)]
  by (simp add: chooseIcon_def ToNumber_def andThen_def freezing_def cold_def cool_def warm_def)

theorem warm_boundary_equivalence_witness:
  "getWeatherIcon example_env (observation 800 77) ''imperial'' =
     getWeatherIcon example_env (observation 800 25) ''metric'' \<and>
   getWeatherIcon example_env (observation 800 25) ''metric'' = Inr clearIcon"
  using warm_boundary_equivalence [OF conditionIdOf_observation [of 800 77] tempOf_observation [of 800 77]
      conditionIdOf_observation [of 800 25] tempOf_observation [of 800 25], of example_env]
  by simp

section \<open>Totality of the icon selection\<close>

lemma ToNumber_primitive: "primitive v \<Longrightarrow> \<exists>n. ToNumber h v = Inr n"
  by (cases v) (simp_all add: ToNumber_def primitive_def)

lemma chooseIcon_returns:
  assumes "ToNumber h conditionId = Inr c" and "ToNumber h temp = Inr t"
  shows "\<exists>i. chooseIcon h conditionId temp u = Inr i"
  using assms by (simp add: chooseIcon_def andThen_def)

lemma getWeatherIcon_no_data: "\<not> truthy weatherData \<Longrightarrow> getWeatherIcon h weatherData u = Inr cloudyIcon"
  by (simp add: getWeatherIcon_def)

lemma getWeatherIcon_no_list:
  assumes "getProp weatherData ''weather'' = Inr weather" and "\<not> truthy weather"
  shows "getWeatherIcon h weatherData u = Inr cloudyIcon"
  using assms by (simp add: getWeatherIcon_def andThen_def)

lemma getWeatherIcon_no_first:
  assumes "getProp weatherData ''weather'' = Inr weather" and "getIndex weather 0 = Inr first"
    and "\<not> truthy first"
  shows "getWeatherIcon h weatherData u = Inr cloudyIcon"
  using assms by (simp add: getWeatherIcon_def andThen_def)

lemma getProp_truthy: "truthy v \<Longrightarrow> \<exists>x. getProp v p = Inr x"
  by (cases v) simp_all

lemma getIndex_truthy: "truthy v \<Longrightarrow> \<exists>x. getIndex v i = Inr x"
  by (cases v) simp_all

lemma getWeatherIcon_returns:
  assumes t: "tempOf weatherData = Inr temp" and pt: "primitive temp"
    and pc: "\<forall>cid. conditionIdOf weatherData = Inr cid \<longrightarrow> primitive cid"
  shows "\<exists>i. getWeatherIcon h weatherData u = Inr i"
proof (cases "truthy weatherData")
  case False
  then show ?thesis by (simp add: getWeatherIcon_no_data)
next
  case True
  then obtain weather where w: "getProp weatherData ''weather'' = Inr weather"
    using getProp_truthy by blast
  show ?thesis
  proof (cases "truthy weather")
    case False
    with w show ?thesis by (simp add: getWeatherIcon_no_list)
  next
    case tw: True
    then obtain first where f: "getIndex weather 0 = Inr first"
      using getIndex_truthy by blast
    show ?thesis
    proof (cases "truthy first")
      case False
      with w f show ?thesis by (simp add: getWeatherIcon_no_first)
    next
      case tf: True
      then obtain cid where c: "getProp first ''id'' = Inr cid"
        using getProp_truthy by blast
      from w f c have "conditionIdOf weatherData = Inr cid"
        by (simp add: conditionIdOf_def andThen_def)
      with pc have "primitive cid" by blast
      then obtain n where n: "ToNumber h cid = Inr n"
        using ToNumber_primitive by blast
      from pt obtain m where m: "ToNumber h temp = Inr m"
        using ToNumber_primitive by blast
      from t obtain main where mm:
        "getProp weatherData ''main'' = Inr main" "getProp main ''temp'' = Inr temp"
        by (auto simp: tempOf_def andThen_def split: sum.splits)
      have "getWeatherIcon h weatherData u = chooseIcon h cid temp u"
        using True tw tf by (simp add: getWeatherIcon_def andThen_def w f c mm)
      with chooseIcon_returns [OF n m] show ?thesis by simp
    qed
  qed
qed

lemma getWeatherIcon_no_id:
  assumes w: "getProp weatherData ''weather'' = Inr weather"
    and f: "getIndex weather 0 = Inr first" and tf: "truthy first"
    and i: "getProp first ''id'' = Inr JUndefined"
    and t: "tempOf weatherData = Inr (JNum (Fin t))"
  shows "getWeatherIcon h weatherData u =
           Inr (if t < freezing u then snowIcon else if t < warm u then cloudyIcon else clearIcon)"
proof -
  from f tf have tw: "truthy weather"
    by (cases weather) (auto split: if_splits)
  from w tw have td: "truthy weatherData"
    by (cases weatherData) auto
  from t obtain main where m:
    "getProp weatherData ''main'' = Inr main" "getProp main ''temp'' = Inr (JNum (Fin t))"
    by (auto simp: tempOf_def andThen_def split: sum.splits)
  have "getWeatherIcon h weatherData u = chooseIcon h JUndefined (JNum (Fin t)) u"
    by (simp add: getWeatherIcon_def andThen_def td w tw f tf i m)
  then show ?thesis
    by (simp add: chooseIcon_def ToNumber_def andThen_def freezing_def cold_def cool_def warm_def)
qed

lemma console_silent:
  "\<not> truthy weatherData \<Longrightarrow> getWeatherIcon_console weatherData u = []"
  "getProp weatherData ''weather'' = Inr weather \<Longrightarrow> \<not> truthy weather \<Longrightarrow>
     getWeatherIcon_console weatherData u = []"
  "getProp weatherData ''weather'' = Inr weather \<Longrightarrow> getIndex weather 0 = Inr first \<Longrightarrow>
     \<not> truthy first \<Longrightarrow> getWeatherIcon_console weatherData u = []"
  by (simp_all add: getWeatherIcon_console_def)

lemma console_line:
  assumes w: "getProp weatherData ''weather'' = Inr weather"
    and f: "getIndex weather 0 = Inr first" and tf: "truthy first"
    and t: "tempOf weatherData = Inr temp"
  shows "\<exists>conditionId condition.
           getProp first ''id'' = Inr conditionId \<and> getProp first ''main'' = Inr condition \<and>
           getWeatherIcon_console weatherData u =
             [[JStr ''Temperature:'', temp,
               JStr (if u = ''metric'' then [CHR 0xB0, CHR ''C''] else [CHR 0xB0, CHR ''F'']),
               JStr ''Condition ID:'', conditionId, JStr ''Condition:'', condition]]"
proof -
  from f tf have tw: "truthy weather"
    by (cases weather) (auto split: if_splits)
  from w tw have td: "truthy weatherData"
    by (cases weatherData) auto
  from t obtain main where m:
    "getProp weatherData ''main'' = Inr main" "getProp main ''temp'' = Inr temp"
    by (auto simp: tempOf_def andThen_def split: sum.splits)
  from tf obtain conditionId where i: "getProp first ''id'' = Inr conditionId"
    using getProp_truthy by blast
  from tf obtain condition where c: "getProp first ''main'' = Inr condition"
    using getProp_truthy by blast
  have "getWeatherIcon_console weatherData u =
             [[JStr ''Temperature:'', temp,
               JStr (if u = ''metric'' then [CHR 0xB0, CHR ''C''] else [CHR 0xB0, CHR ''F'']),
               JStr ''Condition ID:'', conditionId, JStr ''Condition:'', condition]]"
    by (simp add: getWeatherIcon_console_def td w tw f tf m i c)
  with i c show ?thesis by blast
qed

lemma validated_tempOf:
  assumes "validated weatherData = Inr body"
  shows "\<exists>temp. tempOf weatherData = Inr temp"
proof -
  from assms obtain main where "getProp weatherData ''main'' = Inr main" "truthy main"
    by (auto simp: validated_def andThen_def split: if_splits sum.splits)
  moreover from this obtain temp where "getProp main ''temp'' = Inr temp"
    using getProp_truthy by blast
  ultimately show ?thesis by (simp add: tempOf_def andThen_def)
qed

text \<open>
  Claim C3, as amended. The icon is a function of the weather data and the unit alone.
  The call is not free of effects: it writes one line to the console whenever a first
  condition is present and the temperature can be read, and nothing when the guard
  answers. It answers with the cloudy icon whenever the weather data is missing, its list
  of conditions is missing, or the list has no first element, whatever else the data
  holds. When a first condition is present it returns an icon provided the temperature
  can be read, as it can in every body the fetch accepts, and the temperature and the
  identifier are not arrays or objects. A first condition without an identifier is
  decided by the temperature alone: snow below freezing, cloudy from freezing up to warm,
  clear from warm on.
\<close>

theorem getWeatherIcon_defined:
  "(\<not> truthy weatherData \<longrightarrow>
      getWeatherIcon h weatherData u = Inr cloudyIcon \<and> getWeatherIcon_console weatherData u = []) \<and>
   (getProp weatherData ''weather'' = Inr weather \<and> \<not> truthy weather \<longrightarrow>
      getWeatherIcon h weatherData u = Inr cloudyIcon \<and> getWeatherIcon_console weatherData u = []) \<and>
   (getProp weatherData ''weather'' = Inr weather \<and> getIndex weather 0 = Inr first \<and>
      \<not> truthy first \<longrightarrow>
      getWeatherIcon h weatherData u = Inr cloudyIcon \<and> getWeatherIcon_console weatherData u = []) \<and>
   (tempOf weatherData = Inr temp \<and> primitive temp \<and>
      (\<forall>cid. conditionIdOf weatherData = Inr cid \<longrightarrow> primitive cid) \<longrightarrow>
      (\<exists>i. getWeatherIcon h weatherData u = Inr i)) \<and>
   (validated weatherData = Inr body \<longrightarrow> (\<exists>temp. tempOf weatherData = Inr temp)) \<and>
   (getProp weatherData ''weather'' = Inr weather \<and> getIndex weather 0 = Inr first \<and>
      truthy first \<and> getProp first ''id'' = Inr JUndefined \<and>
      tempOf weatherData = Inr (JNum (Fin t)) \<longrightarrow>
      getWeatherIcon h weatherData u =
        Inr (if t < freezing u then snowIcon else if t < warm u then cloudyIcon else clearIcon)) \<and>
   (getProp weatherData ''weather'' = Inr weather \<and> getIndex weather 0 = Inr first \<and>
      truthy first \<and> tempOf weatherData = Inr temp \<longrightarrow>
      (\<exists>conditionId condition.
         getProp first ''id'' = Inr conditionId \<and> getProp first ''main'' = Inr condition \<and>
         getWeatherIcon_console weatherData u =
           [[JStr ''Temperature:'', temp,
             JStr (if u = ''metric'' then [CHR 0xB0, CHR ''C''] else [CHR 0xB0, CHR ''F'']),
             JStr ''Condition ID:'', conditionId, JStr ''Condition:'', condition]]))"
proof (intro conjI impI)
  show "\<exists>i. getWeatherIcon h weatherData u = Inr i"
    if "tempOf weatherData = Inr temp \<and> primitive temp \<and>
      (\<forall>cid. conditionIdOf weatherData = Inr cid \<longrightarrow> primitive cid)"
    using that getWeatherIcon_returns by blast
  show "\<exists>temp. tempOf weatherData = Inr temp" if "validated weatherData = Inr body"
    using that by (rule validated_tempOf)
  show "getWeatherIcon h weatherData u =
        Inr (if t < freezing u then snowIcon else if t < warm u then cloudyIcon else clearIcon)"
    if "getProp weatherData ''weather'' = Inr weather \<and> getIndex weather 0 = Inr first \<and>
      truthy first \<and> getProp first ''id'' = Inr JUndefined \<and>
      tempOf weatherData = Inr (JNum (Fin t))"
    using that getWeatherIcon_no_id by blast
  show "\<exists>conditionId condition.
         getProp first ''id'' = Inr conditionId \<and> getProp first ''main'' = Inr condition \<and>
         getWeatherIcon_console weatherData u =
           [[JStr ''Temperature:'', temp,
             JStr (if u = ''metric'' then [CHR 0xB0, CHR ''C''] else [CHR 0xB0, CHR ''F'']),
             JStr ''Condition ID:'', conditionId, JStr ''Condition:'', condition]]"
    if "getProp weatherData ''weather'' = Inr weather \<and> getIndex weather 0 = Inr first \<and>
      truthy first \<and> tempOf weatherData = Inr temp"
    using that console_line [of weatherData weather first temp u] by simp
qed (simp_all add: getWeatherIcon_no_data getWeatherIcon_no_list getWeatherIcon_no_first console_silent)

theorem getWeatherIcon_defined_witness:
  "getWeatherIcon example_env JNull ''metric'' = Inr cloudyIcon \<and>
   getWeatherIcon_console JNull ''metric'' = [] \<and>
   getWeatherIcon example_env (JObj [(''main'', JObj [])]) ''metric'' = Inr cloudyIcon \<and>
   getWeatherIcon example_env empty_list_body ''metric'' = Inr cloudyIcon \<and>
   (\<exists>i. getWeatherIcon example_env (observation 800 20) ''imperial'' = Inr i) \<and>
   (\<exists>temp. tempOf (observation 800 20) = Inr temp) \<and>
   getWeatherIcon example_env no_id_body ''metric'' = Inr clearIcon \<and>
   getWeatherIcon_console (observation 800 20) ''metric'' =
     [[JStr ''Temperature:'', JNum (Fin 20), JStr [CHR 0xB0, CHR ''C''],
       JStr ''Condition ID:'', JNum (Fin 800), JStr ''Condition:'', JStr ''Sky'']]"
proof -
  have a: "\<not> truthy JNull" by simp
  have b: "getProp (JObj [(''main'', JObj [])]) ''weather'' = Inr JUndefined \<and> \<not> truthy JUndefined"
    by simp
  have c: "getProp empty_list_body ''weather'' = Inr (JArr []) \<and> getIndex (JArr []) 0 = Inr JUndefined
      \<and> \<not> truthy JUndefined"
    by (simp add: empty_list_body_def)
  have d: "tempOf (observation 800 20) = Inr (JNum (Fin 20)) \<and> primitive (JNum (Fin 20)) \<and>
      (\<forall>cid. conditionIdOf (observation 800 20) = Inr cid \<longrightarrow> primitive cid)"
    by (simp add: tempOf_observation conditionIdOf_observation primitive_def)
  have e: "validated (observation 800 20) = Inr (observation 800 20)"
    by (simp add: validated_def observation_def andThen_def)
  have f: "getProp no_id_body ''weather'' = Inr (JArr [JObj [(''description'', JStr ''clear sky'')]]) \<and>
      getIndex (JArr [JObj [(''description'', JStr ''clear sky'')]]) 0 =
        Inr (JObj [(''description'', JStr ''clear sky'')]) \<and>
      truthy (JObj [(''description'', JStr ''clear sky'')]) \<and>
      getProp (JObj [(''description'', JStr ''clear sky'')]) ''id'' = Inr JUndefined \<and>
      tempOf no_id_body = Inr (JNum (Fin 30))"
    by (simp add: no_id_body_def tempOf_def andThen_def)
  have g: "getProp (observation 800 20) ''weather'' =
        Inr (JArr [JObj [(''id'', JNum (Fin 800)), (''main'', JStr ''Sky'')]]) \<and>
      getIndex (JArr [JObj [(''id'', JNum (Fin 800)), (''main'', JStr ''Sky'')]]) 0 =
        Inr (JObj [(''id'', JNum (Fin 800)), (''main'', JStr ''Sky'')]) \<and>
      truthy (JObj [(''id'', JNum (Fin 800)), (''main'', JStr ''Sky'')]) \<and>
      tempOf (observation 800 20) = Inr (JNum (Fin 20))"
    by (simp add: observation_def tempOf_def andThen_def)
  note 1 = getWeatherIcon_defined [THEN conjunct1, rule_format, OF a, of example_env "''metric''"]
  note 2 = getWeatherIcon_defined [THEN conjunct2, THEN conjunct1, rule_format, OF b,
      of example_env "''metric''"]
  note 3 = getWeatherIcon_defined [THEN conjunct2, THEN conjunct2, THEN conjunct1, rule_format,
      OF c, of example_env "''metric''"]
  note 4 = getWeatherIcon_defined [THEN conjunct2, THEN conjunct2, THEN conjunct2, THEN conjunct1,
      rule_format, OF d, of example_env "''imperial''"]
  note 5 = getWeatherIcon_defined [THEN conjunct2, THEN conjunct2, THEN conjunct2, THEN conjunct2,
      THEN conjunct1, rule_format, OF e]
  note 6 = getWeatherIcon_defined [THEN conjunct2, THEN conjunct2, THEN conjunct2, THEN conjunct2,
      THEN conjunct2, THEN conjunct1, rule_format, OF f, of example_env "''metric''"]
  note 7 = getWeatherIcon_defined [THEN conjunct2, THEN conjunct2, THEN conjunct2, THEN conjunct2,
      THEN conjunct2, THEN conjunct2, rule_format, OF g, of "''metric''"]
  from 1 2 3 4 5 6 7 show ?thesis
    by (simp add: freezing_def warm_def)
qed

text \<open>
  The claim as first stated fails on data that the fetch accepts: a first condition
  without an identifier at 30 degrees gets the clear icon, not the cloudy one, and a call
  on an ordinary observation writes a line to the console, so the function is not pure.
\<close>

theorem getWeatherIcon_counterexample:
  "validated no_id_body = Inr no_id_body \<and>
   getWeatherIcon example_env no_id_body ''metric'' = Inr clearIcon \<and>
   validated (observation 800 20) = Inr (observation 800 20) \<and>
   getWeatherIcon_console (observation 800 20) ''metric'' =
     [[JStr ''Temperature:'', JNum (Fin 20), JStr [CHR 0xB0, CHR ''C''],
       JStr ''Condition ID:'', JNum (Fin 800), JStr ''Condition:'', JStr ''Sky'']]"
  by (simp add: getWeatherIcon_def getWeatherIcon_console_def andThen_def chooseIcon_def
      ToNumber_def validated_def no_id_body_def observation_def
      freezing_def cold_def cool_def warm_def)

text \<open>With a first condition and no main section the read of line 20 throws. The
  component never stores such data: the checks of lines 135 and 197 come first.\<close>

lemma getWeatherIcon_without_main:
  "getWeatherIcon h (JObj [(''weather'', JArr [JObj [(''id'', JNum (Fin 800))]])]) u
     = Inl (TypeError (''Cannot read properties of undefined (reading '' @ quoted ''temp'' @ '')''))"
  by (simp add: getWeatherIcon_def andThen_def)

section \<open>Properties of the weather fetcher\<close>

text \<open>The definitions that a run of the handlers unfolds, and the two example states
  written out.\<close>

lemmas run_defs =
  onSubmit_def fetchWeather_def fetchWeatherWithUnit_start_def onChange_def initial_def
  example_env_def ToString_def cityText_def fetchWeatherWithUnit_finish_def cityOutcome_def
  cityResponse_def ok_def andThen_def validated_def ok_response_def error_response_def
  caught_def toggleUnit_def getCurrentLocationWeather_def position_start_def
  position_finish_def locationOutcome_def locationResponse_def errorDataOf_def Let_def

lemma displayed_eq:
  "displayed =
     \<lparr>query = JStr ''Colombo'', data = observation 800 29, loading = False, error = [],
      fetchTime = Some 1700000000, unit = ''metric'',
      fetched = [CityRequest ''Colombo'' ''0123456789abcdef'' ''metric'']\<rparr>"
  by (simp add: displayed_def run_defs observation_def)

lemma locating_eq:
  "locating =
     \<lparr>query = JStr [], data = JNull, loading = True, error = [], fetchTime = None,
      unit = ''metric'',
      fetched = [CoordsRequest (Fin 7) (Fin 80) ''0123456789abcdef'' ''metric'']\<rparr>"
  by (simp add: locating_def run_defs)

subsection \<open>Accepting a response\<close>

lemma validated_eq:
  "validated body =
     (if truthy body \<and> (\<exists>m. getProp body ''main'' = Inr m \<and> truthy m)
          \<and> (\<exists>w. getProp body ''weather'' = Inr w \<and> truthy w)
      then Inr body else Inl (Error ''Invalid response from weather API''))"
  by (cases body) (simp_all add: validated_def andThen_def)

lemma getProp_name: "truthy body \<Longrightarrow> \<exists>name. getProp body ''name'' = Inr name"
  by (cases body) simp_all

text \<open>
  Claim C4, as amended. On a response with a success status whose body parses, both fetch
  paths fail with the invalid-response error exactly when the body, its main section or
  its list of weather conditions is falsy (missing, null, zero, false or the empty
  string), leaving data and time as they were; otherwise the body becomes the data, the
  time is recorded (and the position path copies the place name to the query). A list of
  conditions that is present but empty is accepted.
\<close>

theorem success_body_validation:
  assumes "ok res" and "json res = Inr body"
  shows "(if truthy body \<and> (\<exists>m. getProp body ''main'' = Inr m \<and> truthy m)
             \<and> (\<exists>w. getProp body ''weather'' = Inr w \<and> truthy w)
          then fetchWeatherWithUnit_finish h (Resolved res) now s =
                 s\<lparr>data := body, fetchTime := Some now, loading := False\<rparr> \<and>
               (\<exists>name. getProp body ''name'' = Inr name \<and>
                  position_finish h (Resolved res) now s =
                    s\<lparr>data := body, fetchTime := Some now, query := name, loading := False\<rparr>)
          else fetchWeatherWithUnit_finish h (Resolved res) now s =
                 s\<lparr>error := ''Invalid response from weather API'', loading := False\<rparr> \<and>
               position_finish h (Resolved res) now s =
                 s\<lparr>error := ''Invalid response from weather API'', loading := False\<rparr>)"
proof -
  have c: "cityOutcome h (Resolved res) = validated body"
    using assms by (simp add: cityOutcome_def cityResponse_def andThen_def)
  have l: "locationOutcome h (Resolved res) = validated body"
    using assms by (simp add: locationOutcome_def locationResponse_def andThen_def)
  show ?thesis
  proof (cases "truthy body \<and> (\<exists>m. getProp body ''main'' = Inr m \<and> truthy m)
             \<and> (\<exists>w. getProp body ''weather'' = Inr w \<and> truthy w)")
    case True
    then have v: "validated body = Inr body" by (simp add: validated_eq)
    from True obtain name where n: "getProp body ''name'' = Inr name"
      using getProp_name by blast
    have 1: "fetchWeatherWithUnit_finish h (Resolved res) now s =
                 s\<lparr>data := body, fetchTime := Some now, loading := False\<rparr>"
      by (simp add: fetchWeatherWithUnit_finish_def c v)
    have 2: "position_finish h (Resolved res) now s =
                    s\<lparr>data := body, fetchTime := Some now, query := name, loading := False\<rparr>"
      by (simp add: position_finish_def l v n)
    show ?thesis unfolding if_P [OF True] using 1 2 n by blast
  next
    case False
    then have v: "validated body = Inl (Error ''Invalid response from weather API'')"
      by (simp add: validated_eq)
    have 1: "fetchWeatherWithUnit_finish h (Resolved res) now s =
                 s\<lparr>error := ''Invalid response from weather API'', loading := False\<rparr>"
      by (simp add: fetchWeatherWithUnit_finish_def c v caught_def)
    have 2: "position_finish h (Resolved res) now s =
                 s\<lparr>error := ''Invalid response from weather API'', loading := False\<rparr>"
      by (simp add: position_finish_def l v caught_def)
    show ?thesis unfolding if_not_P [OF False] using 1 2 by blast
  qed
qed

theorem success_body_validation_witness:
  "fetchWeatherWithUnit_finish example_env (Resolved (ok_response (observation 800 29))) 5 initial =
     initial\<lparr>data := observation 800 29, fetchTime := Some 5, loading := False\<rparr> \<and>
   position_finish example_env (Resolved (ok_response (JObj [(''weather'', JArr [JObj []])]))) 5 initial =
     initial\<lparr>error := ''Invalid response from weather API'', loading := False\<rparr>"
proof -
  have o: "ok (ok_response b)" for b by (simp add: ok_def ok_response_def)
  have j: "json (ok_response b) = Inr b" for b by (simp add: ok_response_def)
  from success_body_validation [OF o j, of "observation 800 29" example_env 5 initial]
  have 1: "fetchWeatherWithUnit_finish example_env (Resolved (ok_response (observation 800 29))) 5 initial =
     initial\<lparr>data := observation 800 29, fetchTime := Some 5, loading := False\<rparr>"
    by (simp add: observation_def)
  from success_body_validation [OF o j, of "JObj [(''weather'', JArr [JObj []])]" example_env 5 initial]
  have 2: "position_finish example_env (Resolved (ok_response (JObj [(''weather'', JArr [JObj []])]))) 5 initial =
     initial\<lparr>error := ''Invalid response from weather API'', loading := False\<rparr>"
    by simp
  from 1 2 show ?thesis by (rule conjI)
qed

text \<open>
  The claim as first stated fails on a body whose list of weather conditions is empty:
  the city fetch accepts it as the new data.
\<close>

theorem empty_condition_list_accepted:
  "fetchWeatherWithUnit_finish example_env (Resolved (ok_response empty_list_body)) 1700000000
       (fst (onSubmit example_env (onChange ''Colombo'' initial))) =
     \<lparr>query = JStr ''Colombo'', data = empty_list_body, loading = False, error = [],
      fetchTime = Some 1700000000, unit = ''metric'',
      fetched = [CityRequest ''Colombo'' ''0123456789abcdef'' ''metric'']\<rparr>"
  by (simp add: run_defs empty_list_body_def)

subsection \<open>The key check\<close>

text \<open>
  The city path with no key: the error is set, nothing is fetched, nothing else changes.
\<close>

lemma city_fetch_needs_key:
  assumes "API_KEY h = []"
  shows "fetchWeatherWithUnit_start h city specificUnit s =
           (s\<lparr>error := ''No API key found. Add VITE_OPENWEATHER_API_KEY to .env''\<rparr>, None)"
    and "fetched (fst (fetchWeatherWithUnit_start h city specificUnit s)) = fetched s"
  using assms by (simp_all add: fetchWeatherWithUnit_start_def Let_def)

text \<open>The position callback hands its request to the network whatever the key is.\<close>

lemma position_start_fetches:
  "fetched (fst (position_start h capturedUnit latitude longitude s)) =
     fetched s @ [CoordsRequest latitude longitude (API_KEY h) capturedUnit]"
  by (simp add: position_start_def Let_def)

text \<open>
  Claim C5. Without a configured key the city path stops before any request (last
  conjunct), but the position path has no such check: after the click and the position
  fix it hands one request with an empty key to the network and sets no error.
\<close>

theorem location_fetch_without_key:
  "API_KEY keyless_env = [] \<and>
   getCurrentLocationWeather keyless_env initial =
     (initial\<lparr>loading := True\<rparr>, Some (Position ''metric'')) \<and>
   position_start keyless_env ''metric'' (Fin 7) (Fin 80) (initial\<lparr>loading := True\<rparr>) =
     (initial\<lparr>loading := True, fetched := [CoordsRequest (Fin 7) (Fin 80) [] ''metric'']\<rparr>,
      Some (Fetch (CoordsRequest (Fin 7) (Fin 80) [] ''metric''))) \<and>
   fetchWeatherWithUnit_start keyless_env (JStr ''Colombo'') ''metric'' initial =
     (initial\<lparr>error := ''No API key found. Add VITE_OPENWEATHER_API_KEY to .env''\<rparr>, None)"
  by (simp add: keyless_env_def run_defs)

subsection \<open>Starting a fetch\<close>

text \<open>
  The city path with a key: loading is set, the error and the data are cleared, and one
  request is made.
\<close>

lemma city_fetch_start_resets:
  assumes "API_KEY h \<noteq> []" and "cityText h city = Inr escaped"
  shows "fetchWeatherWithUnit_start h city specificUnit s =
           (s\<lparr>loading := True, error := [], data := JNull,
              fetched := fetched s @ [CityRequest escaped (API_KEY h) specificUnit]\<rparr>,
            Some (Fetch (CityRequest escaped (API_KEY h) specificUnit)))"
  using assms by (simp add: fetchWeatherWithUnit_start_def Let_def)

text \<open>The position request never touches the data, whatever is shown.\<close>

lemma location_request_frame:
  "data (fst (getCurrentLocationWeather h s)) = data s"
  by (simp add: getCurrentLocationWeather_def)

text \<open>
  Claim C6. A request for the current position made while a result is shown sets loading
  and clears the error but leaves the shown result in place: the data is not cleared as
  the city path clears it.
\<close>

theorem location_request_keeps_data:
  "getCurrentLocationWeather example_env displayed =
     (\<lparr>query = JStr ''Colombo'', data = observation 800 29, loading = True, error = [],
       fetchTime = Some 1700000000, unit = ''metric'',
       fetched = [CityRequest ''Colombo'' ''0123456789abcdef'' ''metric'']\<rparr>,
      Some (Position ''metric''))"
  by (simp add: displayed_eq) (simp add: run_defs)

subsection \<open>Failed responses\<close>

text \<open>
  How the two paths turn a failed response into an error. The city path goes by the
  status first and by the body next; the position path reports the provider's message or
  the bare status.
\<close>

lemma city_error_by_status:
  assumes "\<not> ok res"
  shows "status res = 401 \<Longrightarrow> cityOutcome h (Resolved res) =
           Inl (Error ''API key invalid or not activated yet. Wait 10-15 minutes after signup, then try again.'')"
    and "status res = 404 \<Longrightarrow> cityOutcome h (Resolved res) =
           Inl (Error ''City not found. Please check the spelling and try again.'')"
    and "status res = 429 \<Longrightarrow> cityOutcome h (Resolved res) =
           Inl (Error ''Too many requests. Please wait a moment and try again.'')"
  using assms by (simp_all add: cityOutcome_def cityResponse_def)

lemma city_error_by_body:
  assumes "\<not> ok res" and "status res \<noteq> 401" and "status res \<noteq> 404" and "status res \<noteq> 429"
    and "errorDataOf res = JObj kvs"
  shows "map_of kvs ''cod'' = Some (JNum (Fin 500000)) \<Longrightarrow>
           cityOutcome h (Resolved res) = Inl (Error serviceError)"
    and "map_of kvs ''cod'' \<noteq> Some (JNum (Fin 500000)) \<Longrightarrow> map_of kvs ''message'' = Some (JStr msg) \<Longrightarrow>
           cityOutcome h (Resolved res) =
             Inl (Error (if string_includes msg ''500000'' then serviceError
                         else if msg = [] then ''Error: '' @ decimal (status res) @ '' - '' @ statusText res
                         else msg))"
    and "map_of kvs ''cod'' \<noteq> Some (JNum (Fin 500000)) \<Longrightarrow> map_of kvs ''message'' = None \<Longrightarrow>
           cityOutcome h (Resolved res) =
             Inl (Error (''Error: '' @ decimal (status res) @ '' - '' @ statusText res))"
  using assms
  by (auto simp add: cityOutcome_def cityResponse_def andThen_def includes500000_def ToString_def
      Let_def split: option.splits)

lemma city_error_unparsed:
  assumes "\<not> ok res" and "status res \<noteq> 401" and "status res \<noteq> 404" and "status res \<noteq> 429"
    and "json res = Inl e"
  shows "cityOutcome h (Resolved res) =
           Inl (Error (''Error: '' @ decimal (status res) @ '' - '' @ statusText res))"
  using assms
  by (simp add: cityOutcome_def cityResponse_def andThen_def includes500000_def errorDataOf_def)

lemma location_error_by_body:
  assumes "\<not> ok res" and "errorDataOf res = JObj kvs"
  shows "map_of kvs ''message'' = Some (JStr msg) \<Longrightarrow>
           locationOutcome h (Resolved res) =
             Inl (Error (if msg = [] then ''Error: '' @ decimal (status res) else msg))"
    and "map_of kvs ''message'' = None \<Longrightarrow>
           locationOutcome h (Resolved res) = Inl (Error (''Error: '' @ decimal (status res)))"
  using assms
  by (simp_all add: locationOutcome_def locationResponse_def andThen_def ToString_def)

text \<open>
  Claim C7. The position path does not classify a failed response by its status: a 401
  yields the provider's own message and a 404 with an empty body yields the bare status,
  where the city path (last conjunct) yields its message for an invalid key.
\<close>

theorem location_error_not_classified:
  "position_finish example_env
       (Resolved (error_response 401 ''Unauthorized'' invalid_key_body)) 1700000000 locating =
     locating\<lparr>error := ''Invalid API key. Please see https://openweathermap.org/faq#error401 for more info.'',
       loading := False\<rparr> \<and>
   position_finish example_env
       (Resolved (error_response 404 ''Not Found'' (JObj []))) 1700000000 locating =
     locating\<lparr>error := ''Error: 404'', loading := False\<rparr> \<and>
   fetchWeatherWithUnit_finish example_env
       (Resolved (error_response 401 ''Unauthorized'' invalid_key_body)) 1700000000
       (fst (onSubmit example_env (onChange ''Colombo'' initial))) =
     (fst (onSubmit example_env (onChange ''Colombo'' initial)))
       \<lparr>error := ''API key invalid or not activated yet. Wait 10-15 minutes after signup, then try again.'',
        loading := False\<rparr>"
  by (simp add: run_defs invalid_key_body_def decimal.simps digit_def)

subsection \<open>Toggling the unit\<close>

lemma newUnit_cases:
  "unit (fst (toggleUnit h s)) = (if unit s = ''metric'' then ''imperial'' else ''metric'')"
  by (simp add: toggleUnit_def fetchWeatherWithUnit_start_def caught_def Let_def split: sum.splits)

lemma toggleUnit_data:
  "data (fst (toggleUnit h s)) = data s \<or> data (fst (toggleUnit h s)) = JNull"
  by (simp add: toggleUnit_def fetchWeatherWithUnit_start_def caught_def Let_def split: sum.splits)

lemma toggleUnit_fetches:
  assumes "truthy (data s)" "truthy (query s)" "API_KEY h \<noteq> []" "cityText h (query s) = Inr str"
  shows "toggleUnit h s =
      (let newUnit = (if unit s = ''metric'' then ''imperial'' else ''metric'');
           url = CityRequest str (API_KEY h) newUnit
       in (s\<lparr>unit := newUnit, loading := True, error := [], data := JNull,
             fetched := fetched s @ [url]\<rparr>, Some (Fetch url)))"
  using assms by (simp add: toggleUnit_def fetchWeatherWithUnit_start_def Let_def)

lemma toggleUnit_unescapable:
  assumes "truthy (data s)" "truthy (query s)" "API_KEY h \<noteq> []" "cityText h (query s) = Inl err"
  shows "toggleUnit h s =
      (s\<lparr>unit := (if unit s = ''metric'' then ''imperial'' else ''metric''), loading := False,
         error := (if message err = [] then ''Failed to fetch weather data'' else message err),
         data := JNull\<rparr>, None)"
  using assms by (simp add: toggleUnit_def fetchWeatherWithUnit_start_def caught_def Let_def)

lemma toggleUnit_keyless:
  assumes "truthy (data s)" "truthy (query s)" "API_KEY h = []"
  shows "toggleUnit h s =
      (s\<lparr>unit := (if unit s = ''metric'' then ''imperial'' else ''metric''),
         error := ''No API key found. Add VITE_OPENWEATHER_API_KEY to .env''\<rparr>, None)"
  using assms by (simp add: toggleUnit_def fetchWeatherWithUnit_start_def Let_def)

lemma toggleUnit_idle:
  assumes "\<not> (truthy (data s) \<and> truthy (query s))"
  shows "toggleUnit h s = (s\<lparr>unit := (if unit s = ''metric'' then ''imperial'' else ''metric'')\<rparr>, None)"
  using assms by (auto simp add: toggleUnit_def Let_def)

text \<open>
  Claim C8, as amended. Toggling always flips the unit and never rewrites the data: the
  data is left as it is or cleared. When a result is shown and the search box is not
  empty, the toggle calls the city fetch once, for the text now in the search box and
  with the new unit: with a key and a text that can be escaped, exactly one request is
  made and the result is cleared until the answer arrives; with a key and a text that
  cannot be escaped, nothing is fetched, the result is cleared and the error of the
  escaping is shown; without a key, nothing is fetched and the missing-key error is
  shown beside the result. When no result is shown or the search box is empty, nothing
  is fetched and only the unit changes.
\<close>

theorem toggleUnit_refetch:
  "unit (fst (toggleUnit h s)) = (if unit s = ''metric'' then ''imperial'' else ''metric'') \<and>
   (data (fst (toggleUnit h s)) = data s \<or> data (fst (toggleUnit h s)) = JNull) \<and>
   (truthy (data s) \<and> truthy (query s) \<and> API_KEY h \<noteq> [] \<and> cityText h (query s) = Inr str \<longrightarrow>
      toggleUnit h s =
        (let newUnit = (if unit s = ''metric'' then ''imperial'' else ''metric'');
             url = CityRequest str (API_KEY h) newUnit
         in (s\<lparr>unit := newUnit, loading := True, error := [], data := JNull,
               fetched := fetched s @ [url]\<rparr>, Some (Fetch url)))) \<and>
   (truthy (data s) \<and> truthy (query s) \<and> API_KEY h \<noteq> [] \<and> cityText h (query s) = Inl err \<longrightarrow>
      toggleUnit h s =
        (s\<lparr>unit := (if unit s = ''metric'' then ''imperial'' else ''metric''), loading := False,
           error := (if message err = [] then ''Failed to fetch weather data'' else message err),
           data := JNull\<rparr>, None)) \<and>
   (truthy (data s) \<and> truthy (query s) \<and> API_KEY h = [] \<longrightarrow>
      toggleUnit h s =
        (s\<lparr>unit := (if unit s = ''metric'' then ''imperial'' else ''metric''),
           error := ''No API key found. Add VITE_OPENWEATHER_API_KEY to .env''\<rparr>, None)) \<and>
   (\<not> (truthy (data s) \<and> truthy (query s)) \<longrightarrow>
      toggleUnit h s =
        (s\<lparr>unit := (if unit s = ''metric'' then ''imperial'' else ''metric'')\<rparr>, None))"
  using newUnit_cases [of h s] toggleUnit_data [of h s] toggleUnit_fetches [of s h str]
    toggleUnit_unescapable [of s h err] toggleUnit_keyless [of s h] toggleUnit_idle [of s h]
  by blast

theorem toggleUnit_refetch_witness:
  "toggleUnit example_env displayed =
     (\<lparr>query = JStr ''Colombo'', data = JNull, loading = True, error = [],
       fetchTime = Some 1700000000, unit = ''imperial'',
       fetched = [CityRequest ''Colombo'' ''0123456789abcdef'' ''metric'',
                  CityRequest ''Colombo'' ''0123456789abcdef'' ''imperial'']\<rparr>,
      Some (Fetch (CityRequest ''Colombo'' ''0123456789abcdef'' ''imperial''))) \<and>
   toggleUnit unescapable_env displayed =
     (\<lparr>query = JStr ''Colombo'', data = JNull, loading = False, error = ''URI malformed'',
       fetchTime = Some 1700000000, unit = ''imperial'',
       fetched = [CityRequest ''Colombo'' ''0123456789abcdef'' ''metric'']\<rparr>, None) \<and>
   toggleUnit keyless_env displayed =
     (\<lparr>query = JStr ''Colombo'', data = observation 800 29, loading = False,
       error = ''No API key found. Add VITE_OPENWEATHER_API_KEY to .env'',
       fetchTime = Some 1700000000, unit = ''imperial'',
       fetched = [CityRequest ''Colombo'' ''0123456789abcdef'' ''metric'']\<rparr>, None) \<and>
   toggleUnit example_env initial = (initial\<lparr>unit := ''imperial''\<rparr>, None)"
proof -
  have t: "truthy (data displayed) \<and> truthy (query displayed)"
    by (simp add: displayed_eq observation_def)
  have a: "truthy (data displayed) \<and> truthy (query displayed) \<and> API_KEY example_env \<noteq> [] \<and>
      cityText example_env (query displayed) = Inr ''Colombo''"
    using t by (simp add: displayed_eq example_env_def cityText_def ToString_def andThen_def)
  have b: "truthy (data displayed) \<and> truthy (query displayed) \<and> API_KEY unescapable_env \<noteq> [] \<and>
      cityText unescapable_env (query displayed) = Inl (URIError ''URI malformed'')"
    using t
    by (simp add: displayed_eq unescapable_env_def example_env_def cityText_def ToString_def andThen_def)
  have c: "truthy (data displayed) \<and> truthy (query displayed) \<and> API_KEY keyless_env = []"
    using t by (simp add: keyless_env_def)
  have d: "\<not> (truthy (data initial) \<and> truthy (query initial))"
    by (simp add: initial_def)
  have u: "unit initial = ''metric''" by (simp add: initial_def)
  note 1 = toggleUnit_refetch [THEN conjunct2, THEN conjunct2, THEN conjunct1, rule_format, OF a]
  note 2 = toggleUnit_refetch [THEN conjunct2, THEN conjunct2, THEN conjunct2, THEN conjunct1,
      rule_format, OF b]
  note 3 = toggleUnit_refetch [THEN conjunct2, THEN conjunct2, THEN conjunct2, THEN conjunct2,
      THEN conjunct1, rule_format, OF c]
  note 4 = toggleUnit_refetch [THEN conjunct2, THEN conjunct2, THEN conjunct2, THEN conjunct2,
      THEN conjunct2, rule_format, OF d, of example_env]
  have 5: "toggleUnit example_env displayed =
     (\<lparr>query = JStr ''Colombo'', data = JNull, loading = True, error = [],
       fetchTime = Some 1700000000, unit = ''imperial'',
       fetched = [CityRequest ''Colombo'' ''0123456789abcdef'' ''metric'',
                  CityRequest ''Colombo'' ''0123456789abcdef'' ''imperial'']\<rparr>,
      Some (Fetch (CityRequest ''Colombo'' ''0123456789abcdef'' ''imperial'')))"
    unfolding 1 by (simp add: displayed_eq example_env_def Let_def)
  have 6: "toggleUnit unescapable_env displayed =
     (\<lparr>query = JStr ''Colombo'', data = JNull, loading = False, error = ''URI malformed'',
       fetchTime = Some 1700000000, unit = ''imperial'',
       fetched = [CityRequest ''Colombo'' ''0123456789abcdef'' ''metric'']\<rparr>, None)"
    unfolding 2 by (simp add: displayed_eq)
  have 7: "toggleUnit keyless_env displayed =
     (\<lparr>query = JStr ''Colombo'', data = observation 800 29, loading = False,
       error = ''No API key found. Add VITE_OPENWEATHER_API_KEY to .env'',
       fetchTime = Some 1700000000, unit = ''imperial'',
       fetched = [CityRequest ''Colombo'' ''0123456789abcdef'' ''metric'']\<rparr>, None)"
    unfolding 3 by (simp add: displayed_eq)
  have 8: "toggleUnit example_env initial = (initial\<lparr>unit := ''imperial''\<rparr>, None)"
    unfolding 4 by (simp add: u)
  from 5 6 7 8 show ?thesis by (intro conjI)
qed

text \<open>
  The claim as first stated fails once the search box was edited after the result arrived:
  with the box emptied the toggle fetches nothing although a result is shown, and with
  another city typed it fetches that city, not the one shown.
\<close>

theorem toggleUnit_counterexample:
  "toggleUnit example_env (onChange [] displayed) =
     (\<lparr>query = JStr [], data = observation 800 29, loading = False, error = [],
       fetchTime = Some 1700000000, unit = ''imperial'',
       fetched = [CityRequest ''Colombo'' ''0123456789abcdef'' ''metric'']\<rparr>, None) \<and>
   toggleUnit example_env (onChange ''Kandy'' displayed) =
     (\<lparr>query = JStr ''Kandy'', data = JNull, loading = True, error = [],
       fetchTime = Some 1700000000, unit = ''imperial'',
       fetched = [CityRequest ''Colombo'' ''0123456789abcdef'' ''metric'',
                  CityRequest ''Kandy'' ''0123456789abcdef'' ''imperial'']\<rparr>,
      Some (Fetch (CityRequest ''Kandy'' ''0123456789abcdef'' ''imperial'')))"
  by (simp add: displayed_eq) (simp add: run_defs observation_def)

subsection \<open>What a failed city fetch leaves behind\<close>

lemma finish_failed:
  assumes "cityOutcome h result = Inl err"
  shows "fetchWeatherWithUnit_finish h result now s =
           s\<lparr>error := (if message err = [] then ''Failed to fetch weather data'' else message err),
             loading := False\<rparr>"
  using assms by (simp add: fetchWeatherWithUnit_finish_def caught_def)

lemma finish_succeeded:
  assumes "cityOutcome h result = Inr body"
  shows "fetchWeatherWithUnit_finish h result now s =
           s\<lparr>data := body, fetchTime := Some now, loading := False\<rparr>"
  using assms by (simp add: fetchWeatherWithUnit_finish_def)

lemma alone_failed:
  assumes "API_KEY h \<noteq> []" and "cityText h city = Inr str"
    and "cityOutcome h (network (CityRequest str (API_KEY h) specificUnit)) = Inl err"
  shows "fetchWeatherWithUnit h network now city specificUnit s =
           s\<lparr>loading := False,
             error := (if message err = [] then ''Failed to fetch weather data'' else message err),
             data := JNull,
             fetched := fetched s @ [CityRequest str (API_KEY h) specificUnit]\<rparr>"
  using assms
  by (simp add: fetchWeatherWithUnit_def city_fetch_start_resets finish_failed)

lemma alone_unsendable:
  assumes "API_KEY h \<noteq> []" and "cityText h city = Inl err"
  shows "fetchWeatherWithUnit h network now city specificUnit s =
           s\<lparr>loading := False,
             error := (if message err = [] then ''Failed to fetch weather data'' else message err),
             data := JNull\<rparr>"
  using assms
  by (simp add: fetchWeatherWithUnit_def fetchWeatherWithUnit_start_def caught_def)

text \<open>
  Claim C10, as amended. The completion of a failed city fetch writes the error and
  loading and nothing else: every other state variable, the data and the time among
  them, keeps the value it had just before the completion. A successful completion
  writes the data, the time and loading. When nothing else runs between the start of the
  call and its completion, a call that passed the key check and fails, at the request or
  already while the address is built, ends with null data and with the time, the query
  and the unit it started with.
\<close>

theorem failed_city_fetch_frame:
  "(cityOutcome h result = Inl err \<longrightarrow>
      fetchWeatherWithUnit_finish h result now s =
        s\<lparr>error := (if message err = [] then ''Failed to fetch weather data'' else message err),
          loading := False\<rparr>) \<and>
   (cityOutcome h result = Inr body \<longrightarrow>
      fetchWeatherWithUnit_finish h result now s =
        s\<lparr>data := body, fetchTime := Some now, loading := False\<rparr>) \<and>
   (API_KEY h \<noteq> [] \<and> cityText h city = Inr str \<and>
      cityOutcome h (network (CityRequest str (API_KEY h) specificUnit)) = Inl err \<longrightarrow>
      fetchWeatherWithUnit h network now city specificUnit s =
        s\<lparr>loading := False,
          error := (if message err = [] then ''Failed to fetch weather data'' else message err),
          data := JNull,
          fetched := fetched s @ [CityRequest str (API_KEY h) specificUnit]\<rparr> \<and>
      data (fetchWeatherWithUnit h network now city specificUnit s) = JNull \<and>
      fetchTime (fetchWeatherWithUnit h network now city specificUnit s) = fetchTime s) \<and>
   (API_KEY h \<noteq> [] \<and> cityText h city = Inl err \<longrightarrow>
      fetchWeatherWithUnit h network now city specificUnit s =
        s\<lparr>loading := False,
          error := (if message err = [] then ''Failed to fetch weather data'' else message err),
          data := JNull\<rparr> \<and>
      data (fetchWeatherWithUnit h network now city specificUnit s) = JNull \<and>
      fetchTime (fetchWeatherWithUnit h network now city specificUnit s) = fetchTime s)"
  by (intro conjI impI)
    (simp_all add: finish_failed finish_succeeded alone_failed alone_unsendable)

theorem failed_city_fetch_frame_witness:
  "fetchWeatherWithUnit_finish example_env
       (Resolved (error_response 404 ''Not Found'' not_found_body)) 1700000050 displayed =
     displayed\<lparr>error := ''City not found. Please check the spelling and try again.'',
       loading := False\<rparr> \<and>
   fetchWeatherWithUnit_finish example_env
       (Resolved (ok_response (observation 800 31))) 1700000050 displayed =
     displayed\<lparr>data := observation 800 31, fetchTime := Some 1700000050, loading := False\<rparr> \<and>
   fetchWeatherWithUnit example_env
       (\<lambda>url. Resolved (error_response 404 ''Not Found'' not_found_body)) 1700000050
       (JStr ''Atlantis'') ''metric'' displayed =
     \<lparr>query = JStr ''Colombo'', data = JNull, loading = False,
      error = ''City not found. Please check the spelling and try again.'',
      fetchTime = Some 1700000000, unit = ''metric'',
      fetched = [CityRequest ''Colombo'' ''0123456789abcdef'' ''metric'',
                 CityRequest ''Atlantis'' ''0123456789abcdef'' ''metric'']\<rparr> \<and>
   fetchWeatherWithUnit unescapable_env
       (\<lambda>url. Resolved (ok_response (observation 800 31))) 1700000050
       (JStr ''Atlantis'') ''metric'' displayed =
     \<lparr>query = JStr ''Colombo'', data = JNull, loading = False, error = ''URI malformed'',
      fetchTime = Some 1700000000, unit = ''metric'',
      fetched = [CityRequest ''Colombo'' ''0123456789abcdef'' ''metric'']\<rparr>"
proof -
  have o: "cityOutcome example_env (Resolved (error_response 404 ''Not Found'' not_found_body)) =
      Inl (Error ''City not found. Please check the spelling and try again.'')"
    by (simp add: cityOutcome_def cityResponse_def error_response_def ok_def)
  have p: "cityOutcome example_env (Resolved (ok_response (observation 800 31))) =
      Inr (observation 800 31)"
    by (simp add: cityOutcome_def cityResponse_def ok_response_def ok_def validated_def
        observation_def andThen_def)
  have k: "API_KEY example_env \<noteq> [] \<and> cityText example_env (JStr ''Atlantis'') = Inr ''Atlantis'' \<and>
      cityOutcome example_env
        ((\<lambda>url. Resolved (error_response 404 ''Not Found'' not_found_body))
           (CityRequest ''Atlantis'' (API_KEY example_env) ''metric'')) =
      Inl (Error ''City not found. Please check the spelling and try again.'')"
    using o by (simp add: example_env_def cityText_def ToString_def andThen_def)
  have q: "API_KEY unescapable_env \<noteq> [] \<and>
      cityText unescapable_env (JStr ''Atlantis'') = Inl (URIError ''URI malformed'')"
    by (simp add: unescapable_env_def example_env_def cityText_def ToString_def andThen_def)
  note 1 = failed_city_fetch_frame [THEN conjunct1, rule_format, OF o,
      where now = 1700000050 and s = displayed]
  note 2 = failed_city_fetch_frame [THEN conjunct2, THEN conjunct1, rule_format, OF p,
      where now = 1700000050 and s = displayed]
  note 3 = failed_city_fetch_frame [THEN conjunct2, THEN conjunct2, THEN conjunct1, rule_format,
      OF k, where now = 1700000050 and s = displayed, THEN conjunct1]
  note 4 = failed_city_fetch_frame [THEN conjunct2, THEN conjunct2, THEN conjunct2, rule_format,
      OF q,
      where now = 1700000050 and s = displayed and specificUnit = "''metric''"
        and network = "\<lambda>url. Resolved (ok_response (observation 800 31))",
      THEN conjunct1]
  have 5: "fetchWeatherWithUnit_finish example_env
       (Resolved (error_response 404 ''Not Found'' not_found_body)) 1700000050 displayed =
     displayed\<lparr>error := ''City not found. Please check the spelling and try again.'',
       loading := False\<rparr>"
    unfolding 1 by simp
  have 6: "fetchWeatherWithUnit example_env
       (\<lambda>url. Resolved (error_response 404 ''Not Found'' not_found_body)) 1700000050
       (JStr ''Atlantis'') ''metric'' displayed =
     \<lparr>query = JStr ''Colombo'', data = JNull, loading = False,
      error = ''City not found. Please check the spelling and try again.'',
      fetchTime = Some 1700000000, unit = ''metric'',
      fetched = [CityRequest ''Colombo'' ''0123456789abcdef'' ''metric'',
                 CityRequest ''Atlantis'' ''0123456789abcdef'' ''metric'']\<rparr>"
    unfolding 3 by (simp add: displayed_eq example_env_def)
  have 7: "fetchWeatherWithUnit unescapable_env
       (\<lambda>url. Resolved (ok_response (observation 800 31))) 1700000050
       (JStr ''Atlantis'') ''metric'' displayed =
     \<lparr>query = JStr ''Colombo'', data = JNull, loading = False, error = ''URI malformed'',
      fetchTime = Some 1700000000, unit = ''metric'',
      fetched = [CityRequest ''Colombo'' ''0123456789abcdef'' ''metric'']\<rparr>"
    unfolding 4 by (simp add: displayed_eq)
  from 5 2 6 7 show ?thesis by (intro conjI)
qed

text \<open>
  The claim as first stated fails when two city fetches overlap: the second is started
  while the first is awaited and has no time recorded; the first then succeeds and the
  second fails, so the second completes with an error next to the data and the time of
  the first.
\<close>

theorem overlapping_fetch_counterexample:
  "fetchTime (onChange ''Atlantis'' (fst (onSubmit example_env (onChange ''Colombo'' initial)))) = None \<and>
   fetchWeatherWithUnit_finish example_env
       (Resolved (error_response 404 ''Not Found'' not_found_body)) 1700000050
       (fetchWeatherWithUnit_finish example_env
          (Resolved (ok_response (observation 800 29))) 1700000000
          (fst (onSubmit example_env
                 (onChange ''Atlantis''
                    (fst (onSubmit example_env (onChange ''Colombo'' initial))))))) =
     \<lparr>query = JStr ''Atlantis'', data = observation 800 29, loading = False,
      error = ''City not found. Please check the spelling and try again.'',
      fetchTime = Some 1700000000, unit = ''metric'',
      fetched = [CityRequest ''Colombo'' ''0123456789abcdef'' ''metric'',
                 CityRequest ''Atlantis'' ''0123456789abcdef'' ''metric'']\<rparr>"
  by (simp add: run_defs observation_def not_found_body_def)

end
